theory Spec2Isabelle
  imports Main
begin

section \<open>Values, dictionaries and exceptions\<close>

text \<open>
  The handlers of \<^verbatim>\<open>main.py\<close> move JSON-like Python values around: request bodies,
  the token mapping of the identity provider, the event of the payment provider and the
  documents of the store. A Python \<^verbatim>\<open>dict\<close> is an association list in insertion order;
  a well-formed one has distinct keys, and a lookup reads the first entry of a key.
\<close>

datatype jval =
    JNull
  | JBool bool
  | JInt int
  | JStr string
  | JList "jval list"
  | JObj "(string \<times> jval) list"

type_synonym dict = "(string \<times> jval) list"

text \<open>Every \<^verbatim>\<open>raise\<close> of the source, and the exceptions its library calls raise.\<close>

datatype exn =
    HTTPException int string
  | Exception string
  | ValidationError
  | KeyError string
  | TypeError
  | AttributeError
  | JSONDecodeError

text \<open>\<^verbatim>\<open>d.get(k)\<close> and \<^verbatim>\<open>d.get(k, default)\<close>: the default only stands in for an absent key.\<close>

definition dict_get :: "dict \<Rightarrow> string \<Rightarrow> jval" where
  "dict_get d k = (case map_of d k of None \<Rightarrow> JNull | Some v \<Rightarrow> v)"

definition dict_get_default :: "dict \<Rightarrow> string \<Rightarrow> jval \<Rightarrow> jval" where
  "dict_get_default d k dflt = (case map_of d k of None \<Rightarrow> dflt | Some v \<Rightarrow> v)"

text \<open>\<^verbatim>\<open>v[k]\<close> with a string key: KeyError on a mapping without the key, TypeError on a
  value that is no mapping.\<close>

fun subscript :: "jval \<Rightarrow> string \<Rightarrow> exn + jval" where
  "subscript (JObj d) k = (case map_of d k of None \<Rightarrow> Inl (KeyError k) | Some v \<Rightarrow> Inr v)"
| "subscript v k = Inl TypeError"

text \<open>\<^verbatim>\<open>v.items()\<close>: only a mapping has it.\<close>

fun items :: "jval \<Rightarrow> exn + dict" where
  "items (JObj d) = Inr d"
| "items v = Inl AttributeError"

section \<open>Configuration\<close>

text \<open>
  The module reads its configuration from the process environment when it is loaded
  (\<^verbatim>\<open>os.getenv(name, default)\<close>), and imports the payment SDK under a guard that leaves
  \<^verbatim>\<open>stripe = None\<close> when the import fails.
\<close>

record config =
  environ :: "(string \<times> string) list"
  stripe_module :: bool

definition getenv :: "config \<Rightarrow> string \<Rightarrow> string \<Rightarrow> string" where
  "getenv cfg k dflt = (case map_of (environ cfg) k of None \<Rightarrow> dflt | Some v \<Rightarrow> v)"

definition STRIPE_SECRET_KEY :: "config \<Rightarrow> string" where
  "STRIPE_SECRET_KEY cfg = getenv cfg ''STRIPE_SECRET_KEY'' ''''"

definition STRIPE_WEBHOOK_SECRET :: "config \<Rightarrow> string" where
  "STRIPE_WEBHOOK_SECRET cfg = getenv cfg ''STRIPE_WEBHOOK_SECRET'' ''''"

definition GOOGLE_CLIENT_ID :: "config \<Rightarrow> string" where
  "GOOGLE_CLIENT_ID cfg = getenv cfg ''GOOGLE_CLIENT_ID'' ''''"

definition GOOGLE_CLIENT_SECRET :: "config \<Rightarrow> string" where
  "GOOGLE_CLIENT_SECRET cfg = getenv cfg ''GOOGLE_CLIENT_SECRET'' ''''"

definition GOOGLE_REDIRECT_URI :: "config \<Rightarrow> string" where
  "GOOGLE_REDIRECT_URI cfg = getenv cfg ''GOOGLE_REDIRECT_URI'' ''''"

section \<open>The document store\<close>

text \<open>
  \<^verbatim>\<open>database.py\<close> (\<^verbatim>\<open>db\<close>, \<^verbatim>\<open>create_document\<close>, \<^verbatim>\<open>get_documents\<close>) is imported by
  \<^verbatim>\<open>main.py\<close> and is not among the sources. The state of the store is: whether a
  connection was established (\<^verbatim>\<open>db is not None\<close>), whether the driver currently rejects
  writes (any failure of an insert other than the missing connection), the documents of
  each collection in insertion order, each with the identifier the store gave it, and the
  next identifier.
\<close>

type_synonym object_id = nat

type_synonym stored = "object_id \<times> dict"

record store =
  db_present :: bool
  insert_fails :: bool
  colls :: "string \<Rightarrow> stored list"
  next_oid :: object_id

text \<open>
  Modelled from the spec: \<^verbatim>\<open>create_document\<close> of the absent \<^verbatim>\<open>database.py\<close>, the
  store adapter's \<^verbatim>\<open>insert(collectionName, document) -> generatedId\<close>. It fails with
  the store being unavailable when no connection was established; a write the driver
  rejects fails too; otherwise the document is appended verbatim to the collection under
  a fresh identifier, which is returned. A document is a mapping: any other value is
  rejected. A failed insert leaves the store as it was.
\<close>

definition create_document :: "string \<Rightarrow> jval \<Rightarrow> store \<Rightarrow> (exn + object_id) \<times> store" where
  "create_document collection_name data st =
     (if \<not> db_present st then (Inl (Exception ''Database not available''), st)
      else case data of
        JObj d \<Rightarrow>
          (if insert_fails st then (Inl (Exception ''insert failed''), st)
           else (Inr (next_oid st),
                 st\<lparr>colls := (colls st)(collection_name := colls st collection_name @ [(next_oid st, d)]),
                    next_oid := Suc (next_oid st)\<rparr>))
      | _ \<Rightarrow> (Inl TypeError, st))"

text \<open>
  Modelled from the spec: \<^verbatim>\<open>get_documents\<close> of the absent \<^verbatim>\<open>database.py\<close>, the
  store adapter's \<^verbatim>\<open>findAll(collectionName) -> sequence of documents\<close>. It fails when
  no connection was established and returns every document of the collection otherwise.
\<close>

definition get_documents :: "string \<Rightarrow> store \<Rightarrow> exn + stored list" where
  "get_documents collection_name st =
     (if \<not> db_present st then Inl (Exception ''Database not available'')
      else Inr (colls st collection_name))"

text \<open>\<^verbatim>\<open>collection(name)\<close> of \<^verbatim>\<open>main.py\<close>: HTTP 500 without a database, the collection
  handle \<^verbatim>\<open>db[name]\<close> otherwise (here: the documents it holds).\<close>

definition collection :: "string \<Rightarrow> store \<Rightarrow> exn + stored list" where
  "collection name st =
     (if \<not> db_present st then Inl (HTTPException 500 ''Database not configured'')
      else Inr (colls st name))"

text \<open>\<^verbatim>\<open>col.count_documents({})\<close>: the empty filter matches every document.\<close>

definition count_documents :: "stored list \<Rightarrow> nat" where
  "count_documents col = length col"

section \<open>The plan catalogue\<close>

text \<open>\<^verbatim>\<open>SAMPLE_PLANS\<close>: the two built-in plans, their price identifiers read from the
  environment with a placeholder default.\<close>

definition SAMPLE_PLANS :: "config \<Rightarrow> dict list" where
  "SAMPLE_PLANS cfg =
     [ [ (''name'', JStr ''Starter''),
         (''description'', JStr ''For small businesses getting started''),
         (''price_cents'', JInt 1900),
         (''interval'', JStr ''month''),
         (''stripe_price_id'', JStr (getenv cfg ''STRIPE_PRICE_STARTER'' ''price_XXXX_starter'')),
         (''features'', JList [ JStr ''Connect 1 Google Business Profile'',
                                JStr ''Basic analytics'',
                                JStr ''Email support'' ]) ],
       [ (''name'', JStr ''Growth''),
         (''description'', JStr ''For growing teams managing multiple locations''),
         (''price_cents'', JInt 4900),
         (''interval'', JStr ''month''),
         (''stripe_price_id'', JStr (getenv cfg ''STRIPE_PRICE_GROWTH'' ''price_XXXX_growth'')),
         (''features'', JList [ JStr ''Connect up to 5 locations'',
                                JStr ''Posts & hours management'',
                                JStr ''Priority support'' ]) ] ]"

text \<open>The loop \<^verbatim>\<open>for plan in SAMPLE_PLANS: create_document("plan", plan)\<close>: the first
  insert that raises ends it, and what was inserted before stays.\<close>

fun seed_loop :: "dict list \<Rightarrow> store \<Rightarrow> (exn + unit) \<times> store" where
  "seed_loop [] st = (Inr (), st)"
| "seed_loop (plan # plans) st =
     (case create_document ''plan'' (JObj plan) st of
        (Inl e, st') \<Rightarrow> (Inl e, st')
      | (Inr _, st') \<Rightarrow> seed_loop plans st')"

text \<open>\<^verbatim>\<open>seed_plans\<close>, the startup hook: the whole body stands in a \<^verbatim>\<open>try\<close> whose handler
  passes, so the hook returns nothing and never raises; what remains is the store.\<close>

definition seed_plans :: "config \<Rightarrow> store \<Rightarrow> store" where
  "seed_plans cfg st =
     (case collection ''plan'' st of
        Inl e \<Rightarrow> st
      | Inr col \<Rightarrow>
          if count_documents col = 0 then snd (seed_loop (SAMPLE_PLANS cfg) st) else st)"

text \<open>\<^verbatim>\<open>PlanOut\<close>, the response model. The field \<^verbatim>\<open>id\<close> is \<^verbatim>\<open>str(d.get("_id"))\<close>, the
  rendering of the identifier the store gave the document; the identifier stands for it.\<close>

record PlanOut =
  plan_id :: object_id
  name :: string
  description :: "string option"
  price_cents :: int
  interval :: string
  features :: "string list"

text \<open>
  The validators of the response model's fields. A value of the declared type is taken
  as it is, and \<^verbatim>\<open>None\<close> is refused for every field but the optional one. What the
  validation library makes of a value of another kind (a numeric string for an integer,
  a boolean for an integer, ...) is its lax conversion, which differs between its
  versions: it is a parameter, \<^verbatim>\<open>None\<close> where the library refuses the value.
\<close>

record lax_conversions =
  lax_str :: "jval \<Rightarrow> string option"
  lax_int :: "jval \<Rightarrow> int option"
  lax_list :: "jval \<Rightarrow> jval list option"

definition validated :: "'a option \<Rightarrow> exn + 'a" where
  "validated r = (case r of None \<Rightarrow> Inl ValidationError | Some x \<Rightarrow> Inr x)"

fun validate_str :: "lax_conversions \<Rightarrow> jval \<Rightarrow> exn + string" where
  "validate_str lax (JStr s) = Inr s"
| "validate_str lax JNull = Inl ValidationError"
| "validate_str lax v = validated (lax_str lax v)"

fun validate_optional_str :: "lax_conversions \<Rightarrow> jval \<Rightarrow> exn + string option" where
  "validate_optional_str lax JNull = Inr None"
| "validate_optional_str lax v =
     (case validate_str lax v of Inl e \<Rightarrow> Inl e | Inr s \<Rightarrow> Inr (Some s))"

fun validate_int :: "lax_conversions \<Rightarrow> jval \<Rightarrow> exn + int" where
  "validate_int lax (JInt n) = Inr n"
| "validate_int lax JNull = Inl ValidationError"
| "validate_int lax v = validated (lax_int lax v)"

fun validate_each_str :: "lax_conversions \<Rightarrow> jval list \<Rightarrow> exn + string list" where
  "validate_each_str lax [] = Inr []"
| "validate_each_str lax (v # vs) =
     (case validate_str lax v of
        Inl e \<Rightarrow> Inl e
      | Inr s \<Rightarrow> (case validate_each_str lax vs of Inl e \<Rightarrow> Inl e | Inr ss \<Rightarrow> Inr (s # ss)))"

fun validate_list_str :: "lax_conversions \<Rightarrow> jval \<Rightarrow> exn + string list" where
  "validate_list_str lax (JList vs) = validate_each_str lax vs"
| "validate_list_str lax JNull = Inl ValidationError"
| "validate_list_str lax v =
     (case lax_list lax v of None \<Rightarrow> Inl ValidationError | Some vs \<Rightarrow> validate_each_str lax vs)"

text \<open>The constructor call \<^verbatim>\<open>PlanOut(id=..., name=d.get("name"), ...)\<close> of \<^verbatim>\<open>get_plans\<close>:
  it raises the validation error when any field is refused.\<close>

definition plan_out :: "lax_conversions \<Rightarrow> stored \<Rightarrow> exn + PlanOut" where
  "plan_out lax doc =
     (case doc of (oid, d) \<Rightarrow>
        (case validate_str lax (dict_get d ''name'') of Inl e \<Rightarrow> Inl e | Inr n \<Rightarrow>
        (case validate_optional_str lax (dict_get d ''description'') of Inl e \<Rightarrow> Inl e | Inr ds \<Rightarrow>
        (case validate_int lax (dict_get_default d ''price_cents'' (JInt 0)) of Inl e \<Rightarrow> Inl e | Inr pc \<Rightarrow>
        (case validate_str lax (dict_get_default d ''interval'' (JStr ''month'')) of Inl e \<Rightarrow> Inl e | Inr iv \<Rightarrow>
        (case validate_list_str lax (dict_get_default d ''features'' (JList [])) of Inl e \<Rightarrow> Inl e | Inr fs \<Rightarrow>
           Inr \<lparr>plan_id = oid, name = n, description = ds, price_cents = pc,
                interval = iv, features = fs\<rparr>))))))"

text \<open>The loop of \<^verbatim>\<open>get_plans\<close>: \<^verbatim>\<open>out\<close> grows by one entry per document, in order.\<close>

fun get_plans_loop :: "lax_conversions \<Rightarrow> stored list \<Rightarrow> PlanOut list \<Rightarrow> exn + PlanOut list" where
  "get_plans_loop lax [] out = Inr out"
| "get_plans_loop lax (d # docs) out =
     (case plan_out lax d of
        Inl e \<Rightarrow> Inl e
      | Inr p \<Rightarrow> get_plans_loop lax docs (out @ [p]))"

text \<open>\<^verbatim>\<open>GET /api/plans\<close>.\<close>

definition get_plans :: "lax_conversions \<Rightarrow> store \<Rightarrow> exn + PlanOut list" where
  "get_plans lax st =
     (case get_documents ''plan'' st of
        Inl e \<Rightarrow> Inl e
      | Inr docs \<Rightarrow> get_plans_loop lax docs [])"

section \<open>External services and what a handler leaves behind\<close>

text \<open>
  The payment SDK and the identity provider's token endpoint are outside the program:
  what they answer is a parameter of the handlers. \<^verbatim>\<open>Inl\<close> is the exception a call
  raises (for the SDK, its message, which the handlers pass on as \<^verbatim>\<open>str(e)\<close>).
\<close>

record http_response =
  status_code :: int
  json :: "jval option"

record services =
  construct_event :: "string \<Rightarrow> string option \<Rightarrow> string \<Rightarrow> string + jval"
  checkout_session_create :: "string \<Rightarrow> string \<Rightarrow> string \<Rightarrow> string \<Rightarrow> string + (string \<times> string)"
  requests_post :: "string \<Rightarrow> (string \<times> string) list \<Rightarrow> exn + http_response"

text \<open>Each call a handler makes to an external service is recorded with its arguments.\<close>

datatype ext_call =
    ConstructEvent string "string option" string
  | CheckoutSessionCreate string string string string
  | RequestsPost string "(string \<times> string) list"

text \<open>A handler's outcome: the response body or the exception it raised, the store it
  leaves, and the external calls it made, in order.\<close>

record outcome =
  response :: "exn + jval"
  store_after :: store
  ext_calls :: "ext_call list"

section \<open>Payments\<close>

record CreateCheckoutSessionIn =
  price_id :: string
  customer_email :: string
  success_url :: string
  cancel_url :: string

text \<open>\<^verbatim>\<open>POST /api/stripe/create-checkout-session\<close>. The session is created in subscription
  mode for card payments with one line item of quantity 1; those constants are fixed in
  the call and the service is given the four values that vary.\<close>

definition create_checkout_session ::
    "config \<Rightarrow> services \<Rightarrow> CreateCheckoutSessionIn \<Rightarrow> store \<Rightarrow> outcome" where
  "create_checkout_session cfg svc payload st =
     (if \<not> stripe_module cfg \<or> STRIPE_SECRET_KEY cfg = [] then
        \<lparr>response = Inl (HTTPException 400 ''Stripe not configured''),
         store_after = st, ext_calls = []\<rparr>
      else
        let url = success_url payload @ ''?session_id={CHECKOUT_SESSION_ID}'';
            made = [CheckoutSessionCreate (price_id payload) (customer_email payload)
                      url (cancel_url payload)]
        in case checkout_session_create svc (price_id payload) (customer_email payload)
                  url (cancel_url payload) of
             Inl msg \<Rightarrow>
               \<lparr>response = Inl (HTTPException 400 msg), store_after = st, ext_calls = made\<rparr>
           | Inr (sid, surl) \<Rightarrow>
               \<lparr>response = Inr (JObj [(''id'', JStr sid), (''url'', JStr surl)]),
                store_after = st, ext_calls = made\<rparr>)"

text \<open>The request of the webhook: its raw body, and its headers under lower-case names.\<close>

record request =
  body :: string
  headers :: "(string \<times> string) list"

definition accepted_event_types :: "jval list" where
  "accepted_event_types =
     [ JStr ''checkout.session.completed'',
       JStr ''customer.subscription.created'',
       JStr ''customer.subscription.updated'',
       JStr ''customer.subscription.deleted'' ]"

definition received :: jval where
  "received = JObj [(''received'', JBool True)]"

text \<open>\<^verbatim>\<open>POST /api/stripe/webhook\<close>. The insert stands in a \<^verbatim>\<open>try\<close> whose handler passes;
  the subscripts \<^verbatim>\<open>event["type"]\<close> and \<^verbatim>\<open>event["data"]["object"]\<close> do not.\<close>

definition stripe_webhook :: "config \<Rightarrow> services \<Rightarrow> request \<Rightarrow> store \<Rightarrow> outcome" where
  "stripe_webhook cfg svc req st =
     (if \<not> stripe_module cfg \<or> STRIPE_WEBHOOK_SECRET cfg = [] then
        \<lparr>response = Inr (JObj [(''received'', JBool True), (''skipped'', JBool True)]),
         store_after = st, ext_calls = []\<rparr>
      else
        let payload = body req;
            sig_header = map_of (headers req) ''stripe-signature'';
            made = [ConstructEvent payload sig_header (STRIPE_WEBHOOK_SECRET cfg)]
        in case construct_event svc payload sig_header (STRIPE_WEBHOOK_SECRET cfg) of
             Inl msg \<Rightarrow>
               \<lparr>response = Inl (HTTPException 400 msg), store_after = st, ext_calls = made\<rparr>
           | Inr event \<Rightarrow>
               (case subscript event ''type'' of
                  Inl e \<Rightarrow> \<lparr>response = Inl e, store_after = st, ext_calls = made\<rparr>
                | Inr ty \<Rightarrow>
                    if ty \<in> set accepted_event_types then
                      (case subscript event ''data'' of
                         Inl e \<Rightarrow> \<lparr>response = Inl e, store_after = st, ext_calls = made\<rparr>
                       | Inr dat \<Rightarrow>
                           (case subscript dat ''object'' of
                              Inl e \<Rightarrow> \<lparr>response = Inl e, store_after = st, ext_calls = made\<rparr>
                            | Inr data \<Rightarrow>
                                \<lparr>response = Inr received,
                                 store_after =
                                   snd (create_document ''stripeevent''
                                          (JObj [(''type'', ty), (''data'', data)]) st),
                                 ext_calls = made\<rparr>))
                    else \<lparr>response = Inr received, store_after = st, ext_calls = made\<rparr>))"

section \<open>Google OAuth\<close>

record GoogleOAuthCallbackIn =
  code :: string

definition token_url :: string where
  "token_url = ''https://oauth2.googleapis.com/token''"

definition token_request :: "config \<Rightarrow> GoogleOAuthCallbackIn \<Rightarrow> (string \<times> string) list" where
  "token_request cfg b =
     [ (''code'', code b),
       (''client_id'', GOOGLE_CLIENT_ID cfg),
       (''client_secret'', GOOGLE_CLIENT_SECRET cfg),
       (''redirect_uri'', GOOGLE_REDIRECT_URI cfg),
       (''grant_type'', ''authorization_code'') ]"

text \<open>The comprehension \<^verbatim>\<open>{k: (v if k == "scope" else "***") for k, v in tokens.items()}\<close>.\<close>

definition mask_tokens :: "dict \<Rightarrow> dict" where
  "mask_tokens tokens = map (\<lambda>(k, v). (k, if k = ''scope'' then v else JStr ''***'')) tokens"

text \<open>\<^verbatim>\<open>POST /api/google/oauth/callback\<close>. The insert stands in a \<^verbatim>\<open>try\<close> whose handler
  passes; \<^verbatim>\<open>r.json()\<close> and \<^verbatim>\<open>tokens.items()\<close> do not.\<close>

definition google_oauth_callback ::
    "config \<Rightarrow> services \<Rightarrow> GoogleOAuthCallbackIn \<Rightarrow> store \<Rightarrow> outcome" where
  "google_oauth_callback cfg svc b st =
     (if GOOGLE_CLIENT_ID cfg = [] \<or> GOOGLE_CLIENT_SECRET cfg = [] \<or> GOOGLE_REDIRECT_URI cfg = [] then
        \<lparr>response = Inl (HTTPException 400 ''Google OAuth not configured''),
         store_after = st, ext_calls = []\<rparr>
      else
        let data = token_request cfg b;
            made = [RequestsPost token_url data]
        in case requests_post svc token_url data of
             Inl e \<Rightarrow> \<lparr>response = Inl e, store_after = st, ext_calls = made\<rparr>
           | Inr r \<Rightarrow>
               if status_code r \<noteq> 200 then
                 \<lparr>response = Inl (HTTPException 400 ''Failed to exchange code''),
                  store_after = st, ext_calls = made\<rparr>
               else
                 (case json r of
                    None \<Rightarrow> \<lparr>response = Inl JSONDecodeError, store_after = st, ext_calls = made\<rparr>
                  | Some tokens \<Rightarrow>
                      let st' = snd (create_document ''googleconnection'' tokens st)
                      in (case items tokens of
                            Inl e \<Rightarrow> \<lparr>response = Inl e, store_after = st', ext_calls = made\<rparr>
                          | Inr kvs \<Rightarrow>
                              \<lparr>response = Inr (JObj [(''connected'', JBool True),
                                                     (''tokens'', JObj (mask_tokens kvs))]),
                               store_after = st', ext_calls = made\<rparr>)))"

text \<open>\<^verbatim>\<open>GET /api/google/locations\<close>: a stub with two fixed locations once a connection
  document exists.\<close>

definition list_google_locations :: "store \<Rightarrow> exn + jval" where
  "list_google_locations st =
     (case get_documents ''googleconnection'' st of
        Inl e \<Rightarrow> Inl e
      | Inr conns \<Rightarrow>
          if conns = [] then Inr (JObj [(''connected'', JBool False), (''locations'', JList [])])
          else Inr (JObj [(''connected'', JBool True),
                          (''locations'',
                           JList [ JObj [(''name'', JStr ''Demo Location A''), (''storeCode'', JStr ''A001'')],
                                   JObj [(''name'', JStr ''Demo Location B''), (''storeCode'', JStr ''B002'')] ])]))"

section \<open>Plan documents the listing accepts\<close>

text \<open>
  A plan document whose carried fields are all accepted by the validators of the response
  model: it carries a \<^verbatim>\<open>name\<close> that validates, and each of \<^verbatim>\<open>description\<close>,
  \<^verbatim>\<open>price_cents\<close>, \<^verbatim>\<open>interval\<close> and \<^verbatim>\<open>features\<close> is either absent or validates.
  Nothing is asked of an absent field.
\<close>

definition carried_fields_accepted :: "lax_conversions \<Rightarrow> dict \<Rightarrow> bool" where
  "carried_fields_accepted lax d =
     ((case map_of d ''name'' of None \<Rightarrow> False | Some v \<Rightarrow> \<not> isl (validate_str lax v)) \<and>
      (case map_of d ''description'' of None \<Rightarrow> True | Some v \<Rightarrow> \<not> isl (validate_optional_str lax v)) \<and>
      (case map_of d ''price_cents'' of None \<Rightarrow> True | Some v \<Rightarrow> \<not> isl (validate_int lax v)) \<and>
      (case map_of d ''interval'' of None \<Rightarrow> True | Some v \<Rightarrow> \<not> isl (validate_str lax v)) \<and>
      (case map_of d ''features'' of None \<Rightarrow> True | Some v \<Rightarrow> \<not> isl (validate_list_str lax v)))"

text \<open>
  The entry that answers a stored plan document: its identifier is the document's, its
  name is what the validator makes of the carried name, and each other field is what its
  validator makes of the carried value, or the default of \<^verbatim>\<open>get_plans\<close> when the
  document does not carry the field.
\<close>

definition plan_entry :: "lax_conversions \<Rightarrow> stored \<Rightarrow> PlanOut \<Rightarrow> bool" where
  "plan_entry lax doc p =
     (plan_id p = fst doc \<and>
      (\<exists>v. map_of (snd doc) ''name'' = Some v \<and> validate_str lax v = Inr (name p)) \<and>
      (case map_of (snd doc) ''description'' of
         None \<Rightarrow> description p = None
       | Some v \<Rightarrow> validate_optional_str lax v = Inr (description p)) \<and>
      (case map_of (snd doc) ''price_cents'' of
         None \<Rightarrow> price_cents p = 0
       | Some v \<Rightarrow> validate_int lax v = Inr (price_cents p)) \<and>
      (case map_of (snd doc) ''interval'' of
         None \<Rightarrow> interval p = ''month''
       | Some v \<Rightarrow> validate_str lax v = Inr (interval p)) \<and>
      (case map_of (snd doc) ''features'' of
         None \<Rightarrow> features p = []
       | Some v \<Rightarrow> validate_list_str lax v = Inr (features p)))"

section \<open>Sample inputs\<close>

text \<open>Concrete configurations, services and stores at which the theorems below are
  instantiated.\<close>

definition unconfigured :: config where
  "unconfigured = \<lparr>environ = [], stripe_module = True\<rparr>"

definition sample_config :: config where
  "sample_config =
     \<lparr>environ = [ (''STRIPE_SECRET_KEY'', ''sk_test_51''),
                  (''STRIPE_WEBHOOK_SECRET'', ''whsec_test''),
                  (''GOOGLE_CLIENT_ID'', ''client-1''),
                  (''GOOGLE_CLIENT_SECRET'', ''s3cret''),
                  (''GOOGLE_REDIRECT_URI'', ''https://app.example/cb'') ],
      stripe_module = True\<rparr>"

definition sample_services :: "exn + http_response \<Rightarrow> string + jval \<Rightarrow> services" where
  "sample_services post_answer event_answer =
     \<lparr>construct_event = (\<lambda>payload sig_header secret. event_answer),
      checkout_session_create =
        (\<lambda>price email success cancel. Inr (''cs_test_1'', ''https://checkout.example/cs_test_1'')),
      requests_post = (\<lambda>url data. post_answer)\<rparr>"

definition empty_store :: store where
  "empty_store = \<lparr>db_present = True, insert_fails = False, colls = (\<lambda>c. []), next_oid = 0\<rparr>"

definition sample_tokens :: dict where
  "sample_tokens =
     [ (''access_token'', JStr ''ya29.a0Af''),
       (''expires_in'', JInt 3599),
       (''refresh_token'', JStr ''1//0gLong''),
       (''scope'', JStr ''openid email''),
       (''token_type'', JStr ''Bearer'') ]"

definition sample_event :: "string \<Rightarrow> jval" where
  "sample_event ty =
     JObj [ (''id'', JStr ''evt_1''),
            (''type'', JStr ty),
            (''data'', JObj [(''object'', JObj [(''id'', JStr ''cs_test_1'')])]) ]"

definition sample_request :: request where
  "sample_request = \<lparr>body = ''{raw event bytes}'', headers = [(''stripe-signature'', ''t=1,v1=5257'')]\<rparr>"

definition strict_lax :: lax_conversions where
  "strict_lax = \<lparr>lax_str = (\<lambda>v. None), lax_int = (\<lambda>v. None), lax_list = (\<lambda>v. None)\<rparr>"

definition plan_store :: "stored list \<Rightarrow> store" where
  "plan_store docs = empty_store\<lparr>colls := (colls empty_store)(''plan'' := docs)\<rparr>"

definition sample_plan_docs :: "stored list" where
  "sample_plan_docs =
     [ (7, [(''name'', JStr ''Basic''), (''price_cents'', JInt 500)]),
       (8, [(''name'', JStr ''Pro''), (''description'', JStr ''Everything''),
            (''price_cents'', JInt 2500), (''interval'', JStr ''year''),
            (''features'', JList [JStr ''Reports''])]) ]"

section \<open>Facts about the store\<close>

lemma create_document_working:
  "db_present st \<Longrightarrow> \<not> insert_fails st \<Longrightarrow>
   create_document c (JObj d) st =
     (Inr (next_oid st),
      st\<lparr>colls := (colls st)(c := colls st c @ [(next_oid st, d)]), next_oid := Suc (next_oid st)\<rparr>)"
  by (simp add: create_document_def)

lemma create_document_failing:
  "\<not> db_present st \<or> insert_fails st \<Longrightarrow> \<exists>e. create_document c v st = (Inl e, st)"
  by (auto simp: create_document_def split: jval.splits)

section \<open>Payments: the unconfigured paths\<close>

text \<open>
  C8. Without a payment credential (the SDK missing, or the secret key unset or empty),
  \<^verbatim>\<open>POST /api/stripe/create-checkout-session\<close> raises HTTP 400 "Stripe not configured"
  for every request body and every behaviour of the provider, makes no call to the
  provider and leaves the store as it was.
\<close>

theorem checkout_without_credential:
  assumes "\<not> stripe_module cfg \<or> STRIPE_SECRET_KEY cfg = []"
  shows "create_checkout_session cfg svc payload st =
           \<lparr>response = Inl (HTTPException 400 ''Stripe not configured''),
            store_after = st, ext_calls = []\<rparr>"
  using assms by (auto simp: create_checkout_session_def)

theorem checkout_without_credential_witness:
  "STRIPE_SECRET_KEY unconfigured = [] \<and>
   create_checkout_session unconfigured
       (sample_services (Inl (Exception ''unreachable'')) (Inl ''unreachable''))
       \<lparr>price_id = ''price_1'', customer_email = ''owner@shop.example'',
        success_url = ''https://app.example/ok'', cancel_url = ''https://app.example/no''\<rparr>
       empty_store =
     \<lparr>response = Inl (HTTPException 400 ''Stripe not configured''),
      store_after = empty_store, ext_calls = []\<rparr>"
proof -
  have h: "STRIPE_SECRET_KEY unconfigured = []"
    by (simp add: STRIPE_SECRET_KEY_def getenv_def unconfigured_def)
  then have "\<not> stripe_module unconfigured \<or> STRIPE_SECRET_KEY unconfigured = []"
    by simp
  from checkout_without_credential [OF this] h show ?thesis
    by simp
qed

text \<open>
  C2. Without a webhook signing secret (or without the SDK), \<^verbatim>\<open>POST /api/stripe/webhook\<close>
  answers \<^verbatim>\<open>{received: true, skipped: true}\<close> for every raw body and every signature
  header, whatever the verification would have said: it never calls the verification and
  the store is left as it was.
\<close>

theorem webhook_without_secret:
  assumes "\<not> stripe_module cfg \<or> STRIPE_WEBHOOK_SECRET cfg = []"
  shows "stripe_webhook cfg svc req st =
           \<lparr>response = Inr (JObj [(''received'', JBool True), (''skipped'', JBool True)]),
            store_after = st, ext_calls = []\<rparr>"
  using assms by (auto simp: stripe_webhook_def)

theorem webhook_without_secret_witness:
  "STRIPE_WEBHOOK_SECRET unconfigured = [] \<and>
   stripe_webhook unconfigured
       (sample_services (Inl (Exception ''unreachable'')) (Inl ''No signatures found''))
       \<lparr>body = ''{type: checkout.session.completed}'',
        headers = [(''stripe-signature'', ''t=1,v1=00'')]\<rparr>
       empty_store =
     \<lparr>response = Inr (JObj [(''received'', JBool True), (''skipped'', JBool True)]),
      store_after = empty_store, ext_calls = []\<rparr>"
proof -
  have h: "STRIPE_WEBHOOK_SECRET unconfigured = []"
    by (simp add: STRIPE_WEBHOOK_SECRET_def getenv_def unconfigured_def)
  then have "\<not> stripe_module unconfigured \<or> STRIPE_WEBHOOK_SECRET unconfigured = []"
    by simp
  from webhook_without_secret [OF this] h show ?thesis
    by simp
qed

section \<open>Payments: verified webhook events\<close>

lemma sample_config_webhook:
  "stripe_module sample_config" "STRIPE_WEBHOOK_SECRET sample_config \<noteq> []"
  by (simp_all add: STRIPE_WEBHOOK_SECRET_def getenv_def sample_config_def)

lemma sample_event_parts:
  "subscript (sample_event ty) ''type'' = Inr (JStr ty)"
  "subscript (sample_event ty) ''data'' = Inr (JObj [(''object'', JObj [(''id'', JStr ''cs_test_1'')])])"
  "subscript (JObj [(''object'', JObj [(''id'', JStr ''cs_test_1'')])]) ''object'' =
     Inr (JObj [(''id'', JStr ''cs_test_1'')])"
  by (simp_all add: sample_event_def)

lemma webhook_verified:
  assumes "stripe_module cfg" and "STRIPE_WEBHOOK_SECRET cfg \<noteq> []"
    and "construct_event svc (body req) (map_of (headers req) ''stripe-signature'')
           (STRIPE_WEBHOOK_SECRET cfg) = Inr event"
    and "subscript event ''type'' = Inr ty"
  shows "stripe_webhook cfg svc req st =
     (if ty \<in> set accepted_event_types then
        (case subscript event ''data'' of
           Inl e \<Rightarrow> \<lparr>response = Inl e, store_after = st,
                      ext_calls = [ConstructEvent (body req) (map_of (headers req) ''stripe-signature'')
                                    (STRIPE_WEBHOOK_SECRET cfg)]\<rparr>
         | Inr dat \<Rightarrow>
            (case subscript dat ''object'' of
               Inl e \<Rightarrow> \<lparr>response = Inl e, store_after = st,
                      ext_calls = [ConstructEvent (body req) (map_of (headers req) ''stripe-signature'')
                                    (STRIPE_WEBHOOK_SECRET cfg)]\<rparr>
             | Inr data \<Rightarrow>
                 \<lparr>response = Inr received,
                  store_after = snd (create_document ''stripeevent''
                                       (JObj [(''type'', ty), (''data'', data)]) st),
                  ext_calls = [ConstructEvent (body req) (map_of (headers req) ''stripe-signature'')
                                    (STRIPE_WEBHOOK_SECRET cfg)]\<rparr>))
      else \<lparr>response = Inr received, store_after = st,
             ext_calls = [ConstructEvent (body req) (map_of (headers req) ''stripe-signature'')
                                    (STRIPE_WEBHOOK_SECRET cfg)]\<rparr>)"
  using assms by (simp add: stripe_webhook_def Let_def)

text \<open>
  C3. With a signing secret configured and a signature that verifies, the webhook answers
  \<^verbatim>\<open>{received: true}\<close> for every event that carries a type, in every state of the store.
  It appends the document \<^verbatim>\<open>{type, data}\<close> to \<^verbatim>\<open>stripeevent\<close> exactly when the type is
  one of the four accepted names and the store takes the write; for any other type, and
  when the write fails, the store is left as it was.
\<close>

theorem webhook_persists_accepted_events:
  assumes "stripe_module cfg" and "STRIPE_WEBHOOK_SECRET cfg \<noteq> []"
    and "construct_event svc (body req) (map_of (headers req) ''stripe-signature'')
           (STRIPE_WEBHOOK_SECRET cfg) = Inr event"
    and "subscript event ''type'' = Inr ty"
    and "ty \<in> set accepted_event_types \<Longrightarrow>
           subscript event ''data'' = Inr dat \<and> subscript dat ''object'' = Inr data"
  shows "response (stripe_webhook cfg svc req st) = Inr (JObj [(''received'', JBool True)]) \<and>
         store_after (stripe_webhook cfg svc req st) =
           (if ty \<in> set accepted_event_types \<and> db_present st \<and> \<not> insert_fails st then
              st\<lparr>colls := (colls st)(''stripeevent'' :=
                     colls st ''stripeevent'' @ [(next_oid st, [(''type'', ty), (''data'', data)])]),
                 next_oid := Suc (next_oid st)\<rparr>
            else st)"
proof (cases "ty \<in> set accepted_event_types")
  case False
  with webhook_verified [OF assms(1-4), of st] show ?thesis
    by (simp add: received_def)
next
  case True
  with assms(5) have d: "subscript event ''data'' = Inr dat" "subscript dat ''object'' = Inr data"
    by simp_all
  show ?thesis
  proof (cases "db_present st \<and> \<not> insert_fails st")
    case True
    with webhook_verified [OF assms(1-4), of st] \<open>ty \<in> set accepted_event_types\<close> d show ?thesis
      by (simp add: received_def create_document_working)
  next
    case False
    then have "\<not> db_present st \<or> insert_fails st" by blast
    from create_document_failing [OF this]
    have "snd (create_document ''stripeevent'' (JObj [(''type'', ty), (''data'', data)]) st) = st"
      by (metis snd_conv)
    with webhook_verified [OF assms(1-4), of st] \<open>ty \<in> set accepted_event_types\<close> d False
    show ?thesis
      by (auto simp: received_def)
  qed
qed

theorem webhook_persists_accepted_events_witness:
  "stripe_module sample_config \<and> STRIPE_WEBHOOK_SECRET sample_config \<noteq> [] \<and>
   response (stripe_webhook sample_config
      (sample_services (Inl (Exception ''unused'')) (Inr (sample_event ''checkout.session.completed'')))
      sample_request empty_store) = Inr (JObj [(''received'', JBool True)]) \<and>
   colls (store_after (stripe_webhook sample_config
      (sample_services (Inl (Exception ''unused'')) (Inr (sample_event ''checkout.session.completed'')))
      sample_request empty_store)) ''stripeevent'' =
     [(0, [(''type'', JStr ''checkout.session.completed''),
           (''data'', JObj [(''id'', JStr ''cs_test_1'')])])] \<and>
   response (stripe_webhook sample_config
      (sample_services (Inl (Exception ''unused'')) (Inr (sample_event ''invoice.paid'')))
      sample_request empty_store) = Inr (JObj [(''received'', JBool True)]) \<and>
   store_after (stripe_webhook sample_config
      (sample_services (Inl (Exception ''unused'')) (Inr (sample_event ''invoice.paid'')))
      sample_request empty_store) = empty_store \<and>
   response (stripe_webhook sample_config
      (sample_services (Inl (Exception ''unused'')) (Inr (sample_event ''checkout.session.completed'')))
      sample_request (empty_store\<lparr>insert_fails := True\<rparr>)) = Inr (JObj [(''received'', JBool True)]) \<and>
   store_after (stripe_webhook sample_config
      (sample_services (Inl (Exception ''unused'')) (Inr (sample_event ''checkout.session.completed'')))
      sample_request (empty_store\<lparr>insert_fails := True\<rparr>)) = empty_store\<lparr>insert_fails := True\<rparr>"
proof -
  let ?svc = "\<lambda>ty. sample_services (Inl (Exception ''unused'')) (Inr (sample_event ty))"
  have ev: "construct_event (?svc ty) (body sample_request)
              (map_of (headers sample_request) ''stripe-signature'')
              (STRIPE_WEBHOOK_SECRET sample_config) = Inr (sample_event ty)" for ty
    by (simp add: sample_services_def)
  have parts: "JStr ty \<in> set accepted_event_types \<Longrightarrow>
      subscript (sample_event ty) ''data'' = Inr (JObj [(''object'', JObj [(''id'', JStr ''cs_test_1'')])]) \<and>
      subscript (JObj [(''object'', JObj [(''id'', JStr ''cs_test_1'')])]) ''object'' =
        Inr (JObj [(''id'', JStr ''cs_test_1'')])" for ty
    by (simp add: sample_event_parts)
  note inst = webhook_persists_accepted_events
    [OF sample_config_webhook ev sample_event_parts(1) parts]
  have acc: "JStr ''checkout.session.completed'' \<in> set accepted_event_types"
    and rej: "JStr ''invoice.paid'' \<notin> set accepted_event_types"
    by (simp_all add: accepted_event_types_def)
  from inst [of "''checkout.session.completed''" empty_store] acc
  have a: "response (stripe_webhook sample_config (?svc ''checkout.session.completed'')
             sample_request empty_store) = Inr (JObj [(''received'', JBool True)])"
    and b: "colls (store_after (stripe_webhook sample_config (?svc ''checkout.session.completed'')
             sample_request empty_store)) ''stripeevent'' =
       [(0, [(''type'', JStr ''checkout.session.completed''),
             (''data'', JObj [(''id'', JStr ''cs_test_1'')])])]"
    by (simp_all add: empty_store_def)
  from inst [of "''invoice.paid''" empty_store] rej
  have c: "response (stripe_webhook sample_config (?svc ''invoice.paid'')
             sample_request empty_store) = Inr (JObj [(''received'', JBool True)])"
    and d: "store_after (stripe_webhook sample_config (?svc ''invoice.paid'')
             sample_request empty_store) = empty_store"
    by simp_all
  from inst [of "''checkout.session.completed''" "empty_store\<lparr>insert_fails := True\<rparr>"]
  have e: "response (stripe_webhook sample_config (?svc ''checkout.session.completed'')
             sample_request (empty_store\<lparr>insert_fails := True\<rparr>)) = Inr (JObj [(''received'', JBool True)])"
    and f: "store_after (stripe_webhook sample_config (?svc ''checkout.session.completed'')
             sample_request (empty_store\<lparr>insert_fails := True\<rparr>)) = empty_store\<lparr>insert_fails := True\<rparr>"
    by simp_all
  from sample_config_webhook a b c d e f show ?thesis
    by blast
qed

section \<open>Google OAuth: the code exchange\<close>

lemma sample_config_google:
  "GOOGLE_CLIENT_ID sample_config \<noteq> []"
  "GOOGLE_CLIENT_SECRET sample_config \<noteq> []"
  "GOOGLE_REDIRECT_URI sample_config \<noteq> []"
  by (simp_all add: GOOGLE_CLIENT_ID_def GOOGLE_CLIENT_SECRET_def GOOGLE_REDIRECT_URI_def
        getenv_def sample_config_def)

text \<open>The redaction keeps the keys in order, keeps the value of \<^verbatim>\<open>scope\<close> and puts the
  marker in place of every other value, so it cannot tell apart two mappings that differ
  only in values under other keys.\<close>

lemma mask_tokens_keys: "map fst (mask_tokens tokens) = map fst tokens"
  by (induction tokens) (auto simp: mask_tokens_def)

lemma mask_tokens_nth:
  "i < length tokens \<Longrightarrow>
   mask_tokens tokens ! i =
     (fst (tokens ! i), if fst (tokens ! i) = ''scope'' then snd (tokens ! i) else JStr ''***'')"
  by (simp add: mask_tokens_def case_prod_beta)

lemma mask_tokens_length: "length (mask_tokens tokens) = length tokens"
  by (simp add: mask_tokens_def)

lemma mask_tokens_cong:
  assumes keys: "map fst tokens' = map fst tokens"
    and scope: "\<forall>i<length tokens. fst (tokens ! i) = ''scope'' \<longrightarrow> snd (tokens' ! i) = snd (tokens ! i)"
  shows "mask_tokens tokens' = mask_tokens tokens"
proof (rule nth_equalityI)
  from keys have len: "length tokens' = length tokens"
    by (metis length_map)
  then show "length (mask_tokens tokens') = length (mask_tokens tokens)"
    by (simp add: mask_tokens_length)
  fix i assume "i < length (mask_tokens tokens')"
  then have i: "i < length tokens" "i < length tokens'"
    using len by (simp_all add: mask_tokens_length)
  from keys i have k: "fst (tokens' ! i) = fst (tokens ! i)"
    by (metis nth_map)
  from i k scope show "mask_tokens tokens' ! i = mask_tokens tokens ! i"
    by (simp add: mask_tokens_nth)
qed

lemma callback_success:
  assumes "GOOGLE_CLIENT_ID cfg \<noteq> []" and "GOOGLE_CLIENT_SECRET cfg \<noteq> []"
    and "GOOGLE_REDIRECT_URI cfg \<noteq> []"
    and "requests_post svc token_url (token_request cfg b) = Inr r"
    and "status_code r = 200"
    and "json r = Some (JObj tokens)"
  shows "google_oauth_callback cfg svc b st =
           \<lparr>response = Inr (JObj [(''connected'', JBool True), (''tokens'', JObj (mask_tokens tokens))]),
            store_after = snd (create_document ''googleconnection'' (JObj tokens) st),
            ext_calls = [RequestsPost token_url (token_request cfg b)]\<rparr>"
  using assms by (simp add: google_oauth_callback_def Let_def)

text \<open>
  C1. When OAuth is configured and the token endpoint answers 200 with a mapping, the
  response of \<^verbatim>\<open>POST /api/google/oauth/callback\<close> is \<^verbatim>\<open>{connected: true, tokens: m}\<close>
  where \<^verbatim>\<open>m\<close> has the keys of the provider's mapping in order, the provider's value
  under every key \<^verbatim>\<open>scope\<close> and the marker \<^verbatim>\<open>***\<close> under every other key. The values
  of \<^verbatim>\<open>access_token\<close>, \<^verbatim>\<open>refresh_token\<close> and every other key but \<^verbatim>\<open>scope\<close> do not
  reach the response: any other answer of the provider with the same keys and the same
  values under \<^verbatim>\<open>scope\<close> gives the same response, in every state of the store.
\<close>

theorem callback_masks_tokens:
  assumes "GOOGLE_CLIENT_ID cfg \<noteq> []" and "GOOGLE_CLIENT_SECRET cfg \<noteq> []"
    and "GOOGLE_REDIRECT_URI cfg \<noteq> []"
    and "requests_post svc token_url (token_request cfg b) = Inr r"
    and "status_code r = 200"
    and "json r = Some (JObj tokens)"
  shows "\<exists>masked.
           response (google_oauth_callback cfg svc b st) =
             Inr (JObj [(''connected'', JBool True), (''tokens'', JObj masked)]) \<and>
           map fst masked = map fst tokens \<and>
           (\<forall>i<length tokens.
              snd (masked ! i) =
                (if fst (tokens ! i) = ''scope'' then snd (tokens ! i) else JStr ''***'')) \<and>
           (\<forall>svc' r' tokens'.
              requests_post svc' token_url (token_request cfg b) = Inr r' \<and>
              status_code r' = 200 \<and> json r' = Some (JObj tokens') \<and>
              map fst tokens' = map fst tokens \<and>
              (\<forall>i<length tokens.
                 fst (tokens ! i) = ''scope'' \<longrightarrow> snd (tokens' ! i) = snd (tokens ! i)) \<longrightarrow>
              response (google_oauth_callback cfg svc' b st) =
                response (google_oauth_callback cfg svc b st))"
proof (intro exI conjI allI impI)
  show "response (google_oauth_callback cfg svc b st) =
          Inr (JObj [(''connected'', JBool True), (''tokens'', JObj (mask_tokens tokens))])"
    using callback_success [OF assms] by simp
  show "map fst (mask_tokens tokens) = map fst tokens"
    by (rule mask_tokens_keys)
next
  fix i assume "i < length tokens"
  then show "snd (mask_tokens tokens ! i) =
               (if fst (tokens ! i) = ''scope'' then snd (tokens ! i) else JStr ''***'')"
    by (simp add: mask_tokens_nth)
next
  fix svc' :: services and r' :: http_response and tokens' :: dict
  assume h: "requests_post svc' token_url (token_request cfg b) = Inr r' \<and>
             status_code r' = 200 \<and> json r' = Some (JObj tokens') \<and>
             map fst tokens' = map fst tokens \<and>
             (\<forall>i<length tokens.
                fst (tokens ! i) = ''scope'' \<longrightarrow> snd (tokens' ! i) = snd (tokens ! i))"
  then have "mask_tokens tokens' = mask_tokens tokens"
    by (intro mask_tokens_cong) simp_all
  moreover from h have
    "response (google_oauth_callback cfg svc' b st) =
       Inr (JObj [(''connected'', JBool True), (''tokens'', JObj (mask_tokens tokens'))])"
    using callback_success [OF assms(1-3), of svc' b r' tokens' st] by simp
  ultimately show "response (google_oauth_callback cfg svc' b st) =
                     response (google_oauth_callback cfg svc b st)"
    using callback_success [OF assms] by simp
qed

theorem callback_masks_tokens_witness:
  "GOOGLE_CLIENT_ID sample_config \<noteq> [] \<and> GOOGLE_CLIENT_SECRET sample_config \<noteq> [] \<and>
   GOOGLE_REDIRECT_URI sample_config \<noteq> [] \<and>
   requests_post
     (sample_services (Inr \<lparr>status_code = 200, json = Some (JObj sample_tokens)\<rparr>) (Inl ''unused''))
     token_url (token_request sample_config \<lparr>code = ''abc''\<rparr>) =
     Inr \<lparr>status_code = 200, json = Some (JObj sample_tokens)\<rparr> \<and>
   response
     (google_oauth_callback sample_config
        (sample_services (Inr \<lparr>status_code = 200, json = Some (JObj sample_tokens)\<rparr>) (Inl ''unused''))
        \<lparr>code = ''abc''\<rparr> empty_store) =
     Inr (JObj [ (''connected'', JBool True),
                 (''tokens'', JObj [ (''access_token'', JStr ''***''),
                                     (''expires_in'', JStr ''***''),
                                     (''refresh_token'', JStr ''***''),
                                     (''scope'', JStr ''openid email''),
                                     (''token_type'', JStr ''***'') ]) ])"
proof -
  let ?r = "\<lparr>status_code = 200, json = Some (JObj sample_tokens)\<rparr>"
  let ?svc = "sample_services (Inr ?r) (Inl ''unused'')"
  have post: "requests_post ?svc token_url (token_request sample_config \<lparr>code = ''abc''\<rparr>) = Inr ?r"
    by (simp add: sample_services_def)
  have ok: "status_code ?r = 200" and js: "json ?r = Some (JObj sample_tokens)"
    by simp_all
  from callback_masks_tokens [OF sample_config_google post ok js, of empty_store]
  obtain masked where
    resp: "response (google_oauth_callback sample_config ?svc \<lparr>code = ''abc''\<rparr> empty_store) =
             Inr (JObj [(''connected'', JBool True), (''tokens'', JObj masked)])"
    and keys: "map fst masked = map fst sample_tokens"
    and vals: "\<forall>i<length sample_tokens.
                 snd (masked ! i) =
                   (if fst (sample_tokens ! i) = ''scope'' then snd (sample_tokens ! i)
                    else JStr ''***'')"
    by blast
  from vals have "map snd masked = [JStr ''***'', JStr ''***'', JStr ''***'', JStr ''openid email'', JStr ''***'']"
    using keys [THEN arg_cong, of length]
    by (simp add: list_eq_iff_nth_eq sample_tokens_def less_Suc_eq numeral_eq_Suc all_conj_distrib)
  with keys have "zip (map fst masked) (map snd masked) =
      [ (''access_token'', JStr ''***''), (''expires_in'', JStr ''***''),
        (''refresh_token'', JStr ''***''), (''scope'', JStr ''openid email''),
        (''token_type'', JStr ''***'') ]"
    by (simp add: sample_tokens_def)
  then have "masked = [ (''access_token'', JStr ''***''), (''expires_in'', JStr ''***''),
        (''refresh_token'', JStr ''***''), (''scope'', JStr ''openid email''),
        (''token_type'', JStr ''***'') ]"
    by (simp only: zip_map_fst_snd)
  with resp sample_config_google post show ?thesis
    by simp
qed

text \<open>
  C4. When OAuth is configured and the token endpoint answers with a status other than
  200, \<^verbatim>\<open>POST /api/google/oauth/callback\<close> raises HTTP 400 "Failed to exchange code" and
  the store is left as it was: nothing is written to \<^verbatim>\<open>googleconnection\<close> or anywhere
  else.
\<close>

theorem callback_exchange_failed:
  assumes "GOOGLE_CLIENT_ID cfg \<noteq> []" and "GOOGLE_CLIENT_SECRET cfg \<noteq> []"
    and "GOOGLE_REDIRECT_URI cfg \<noteq> []"
    and "requests_post svc token_url (token_request cfg b) = Inr r"
    and "status_code r \<noteq> 200"
  shows "response (google_oauth_callback cfg svc b st) =
           Inl (HTTPException 400 ''Failed to exchange code'') \<and>
         store_after (google_oauth_callback cfg svc b st) = st"
  using assms by (simp add: google_oauth_callback_def Let_def)

theorem callback_exchange_failed_witness:
  "GOOGLE_CLIENT_ID sample_config \<noteq> [] \<and> GOOGLE_CLIENT_SECRET sample_config \<noteq> [] \<and>
   GOOGLE_REDIRECT_URI sample_config \<noteq> [] \<and>
   requests_post
     (sample_services (Inr \<lparr>status_code = 401, json = None\<rparr>) (Inl ''unused''))
     token_url (token_request sample_config \<lparr>code = ''abc''\<rparr>) =
     Inr \<lparr>status_code = 401, json = None\<rparr> \<and>
   status_code \<lparr>status_code = 401, json = None\<rparr> \<noteq> 200 \<and>
   response
     (google_oauth_callback sample_config
        (sample_services (Inr \<lparr>status_code = 401, json = None\<rparr>) (Inl ''unused''))
        \<lparr>code = ''abc''\<rparr> empty_store) =
     Inl (HTTPException 400 ''Failed to exchange code'') \<and>
   store_after
     (google_oauth_callback sample_config
        (sample_services (Inr \<lparr>status_code = 401, json = None\<rparr>) (Inl ''unused''))
        \<lparr>code = ''abc''\<rparr> empty_store) = empty_store"
proof -
  let ?r = "\<lparr>status_code = 401, json = None\<rparr>"
  let ?svc = "sample_services (Inr ?r) (Inl ''unused'')"
  have post: "requests_post ?svc token_url (token_request sample_config \<lparr>code = ''abc''\<rparr>) = Inr ?r"
    by (simp add: sample_services_def)
  have bad: "status_code ?r \<noteq> 200"
    by simp
  from callback_exchange_failed [OF sample_config_google post bad, of empty_store]
    sample_config_google post bad
  show ?thesis
    by blast
qed

text \<open>
  C9. When OAuth is configured and the token endpoint answers 200 with a mapping, the
  callback answers \<^verbatim>\<open>{connected: true, tokens: ...}\<close> in every state of the store. When
  the insert fails (no database, or the driver rejects the write) the exception is
  swallowed and the store is left as it was, so the answer does not mean that a
  connection document exists: with a readable store whose \<^verbatim>\<open>googleconnection\<close>
  collection is empty, \<^verbatim>\<open>GET /api/google/locations\<close> then answers
  \<^verbatim>\<open>{connected: false, locations: []}\<close>.
\<close>

theorem callback_connected_without_record:
  assumes "GOOGLE_CLIENT_ID cfg \<noteq> []" and "GOOGLE_CLIENT_SECRET cfg \<noteq> []"
    and "GOOGLE_REDIRECT_URI cfg \<noteq> []"
    and "requests_post svc token_url (token_request cfg b) = Inr r"
    and "status_code r = 200"
    and "json r = Some (JObj tokens)"
  shows "(\<exists>masked. response (google_oauth_callback cfg svc b st) =
            Inr (JObj [(''connected'', JBool True), (''tokens'', JObj masked)])) \<and>
         (\<not> db_present st \<or> insert_fails st \<longrightarrow>
            store_after (google_oauth_callback cfg svc b st) = st) \<and>
         (db_present st \<and> insert_fails st \<and> colls st ''googleconnection'' = [] \<longrightarrow>
            list_google_locations (store_after (google_oauth_callback cfg svc b st)) =
              Inr (JObj [(''connected'', JBool False), (''locations'', JList [])]))"
proof -
  have failing: "snd (create_document ''googleconnection'' (JObj tokens) st) = st"
    if "\<not> db_present st \<or> insert_fails st"
    using create_document_failing [OF that] by (metis snd_conv)
  from callback_success [OF assms, of st]
  have "response (google_oauth_callback cfg svc b st) =
          Inr (JObj [(''connected'', JBool True), (''tokens'', JObj (mask_tokens tokens))])"
    and "store_after (google_oauth_callback cfg svc b st) =
          snd (create_document ''googleconnection'' (JObj tokens) st)"
    by simp_all
  with failing show ?thesis
    by (auto simp: list_google_locations_def get_documents_def)
qed

theorem callback_connected_without_record_witness:
  "GOOGLE_CLIENT_ID sample_config \<noteq> [] \<and> GOOGLE_CLIENT_SECRET sample_config \<noteq> [] \<and>
   GOOGLE_REDIRECT_URI sample_config \<noteq> [] \<and>
   insert_fails (empty_store\<lparr>insert_fails := True\<rparr>) \<and>
   db_present (empty_store\<lparr>insert_fails := True\<rparr>) \<and>
   colls (empty_store\<lparr>insert_fails := True\<rparr>) ''googleconnection'' = [] \<and>
   (\<exists>masked. response
      (google_oauth_callback sample_config
         (sample_services (Inr \<lparr>status_code = 200, json = Some (JObj sample_tokens)\<rparr>) (Inl ''unused''))
         \<lparr>code = ''abc''\<rparr> (empty_store\<lparr>insert_fails := True\<rparr>)) =
      Inr (JObj [(''connected'', JBool True), (''tokens'', JObj masked)])) \<and>
   list_google_locations
     (store_after
        (google_oauth_callback sample_config
           (sample_services (Inr \<lparr>status_code = 200, json = Some (JObj sample_tokens)\<rparr>) (Inl ''unused''))
           \<lparr>code = ''abc''\<rparr> (empty_store\<lparr>insert_fails := True\<rparr>))) =
     Inr (JObj [(''connected'', JBool False), (''locations'', JList [])])"
proof -
  let ?r = "\<lparr>status_code = 200, json = Some (JObj sample_tokens)\<rparr>"
  let ?svc = "sample_services (Inr ?r) (Inl ''unused'')"
  let ?st = "empty_store\<lparr>insert_fails := True\<rparr>"
  have post: "requests_post ?svc token_url (token_request sample_config \<lparr>code = ''abc''\<rparr>) = Inr ?r"
    by (simp add: sample_services_def)
  have ok: "status_code ?r = 200" and js: "json ?r = Some (JObj sample_tokens)"
    by simp_all
  have st: "insert_fails ?st" "db_present ?st" "colls ?st ''googleconnection'' = []"
    by (simp_all add: empty_store_def)
  then have failing: "\<not> db_present ?st \<or> insert_fails ?st"
    by simp
  from callback_connected_without_record [OF sample_config_google post ok js, of ?st]
    sample_config_google st failing
  show ?thesis
    by blast
qed

section \<open>The plan catalogue: seeding\<close>

lemma seed_loop_failing:
  assumes "\<not> db_present st \<or> insert_fails st"
  shows "snd (seed_loop plans st) = st"
proof (cases plans)
  case Nil
  then show ?thesis by simp
next
  case (Cons p ps)
  from create_document_failing [OF assms, of "''plan''" "JObj p"]
  obtain e where "create_document ''plan'' (JObj p) st = (Inl e, st)" by blast
  with Cons show ?thesis by simp
qed

lemma seed_loop_two_working:
  assumes "db_present st" and "\<not> insert_fails st"
  shows "snd (seed_loop [p, q] st) =
           st\<lparr>colls := (colls st)(''plan'' := colls st ''plan'' @ [(next_oid st, p), (Suc (next_oid st), q)]),
              next_oid := Suc (Suc (next_oid st))\<rparr>"
  using assms by (simp add: create_document_working)

lemma SAMPLE_PLANS_two: "SAMPLE_PLANS cfg = [SAMPLE_PLANS cfg ! 0, SAMPLE_PLANS cfg ! 1]"
  by (simp add: SAMPLE_PLANS_def)

lemma seed_plans_working:
  assumes "db_present st" and "\<not> insert_fails st" and "colls st ''plan'' = []"
  shows "seed_plans cfg st =
           st\<lparr>colls := (colls st)(''plan'' :=
                  [(next_oid st, SAMPLE_PLANS cfg ! 0), (Suc (next_oid st), SAMPLE_PLANS cfg ! 1)]),
              next_oid := Suc (Suc (next_oid st))\<rparr>"
proof -
  have "snd (seed_loop (SAMPLE_PLANS cfg) st) =
          st\<lparr>colls := (colls st)(''plan'' := colls st ''plan'' @
                 [(next_oid st, SAMPLE_PLANS cfg ! 0), (Suc (next_oid st), SAMPLE_PLANS cfg ! 1)]),
             next_oid := Suc (Suc (next_oid st))\<rparr>"
    using seed_loop_two_working [OF assms(1,2)] SAMPLE_PLANS_two [of cfg] by metis
  with assms show ?thesis
    by (simp add: seed_plans_def collection_def count_documents_def)
qed

lemma seed_plans_idem: "seed_plans cfg (seed_plans cfg st) = seed_plans cfg st"
proof (cases "db_present st \<and> colls st ''plan'' = []")
  case False
  then show ?thesis
    by (auto simp: seed_plans_def collection_def count_documents_def)
next
  case True
  show ?thesis
  proof (cases "insert_fails st")
    case True
    with seed_loop_failing [of st "SAMPLE_PLANS cfg"] have "seed_plans cfg st = st"
      by (simp add: seed_plans_def collection_def count_documents_def)
    then show ?thesis by simp
  next
    case False
    with True have s: "seed_plans cfg st =
        st\<lparr>colls := (colls st)(''plan'' :=
               [(next_oid st, SAMPLE_PLANS cfg ! 0), (Suc (next_oid st), SAMPLE_PLANS cfg ! 1)]),
           next_oid := Suc (Suc (next_oid st))\<rparr>"
      by (simp add: seed_plans_working)
    have "seed_plans cfg (st\<lparr>colls := (colls st)(''plan'' :=
               [(next_oid st, SAMPLE_PLANS cfg ! 0), (Suc (next_oid st), SAMPLE_PLANS cfg ! 1)]),
           next_oid := Suc (Suc (next_oid st))\<rparr>) =
        st\<lparr>colls := (colls st)(''plan'' :=
               [(next_oid st, SAMPLE_PLANS cfg ! 0), (Suc (next_oid st), SAMPLE_PLANS cfg ! 1)]),
           next_oid := Suc (Suc (next_oid st))\<rparr>"
      by (simp add: seed_plans_def collection_def count_documents_def)
    with s show ?thesis by simp
  qed
qed

text \<open>
  C5. On a store that takes writes and holds no plan, the startup seed inserts the two
  built-in plans, in order; run again, it finds a collection that is not empty and
  leaves the store exactly as the first run left it. After two runs the collection
  holds two documents.
\<close>

theorem seed_twice_two_plans:
  assumes "db_present st" and "\<not> insert_fails st" and "colls st ''plan'' = []"
  shows "map snd (colls (seed_plans cfg st) ''plan'') = SAMPLE_PLANS cfg \<and>
         length (colls (seed_plans cfg st) ''plan'') = 2 \<and>
         seed_plans cfg (seed_plans cfg st) = seed_plans cfg st \<and>
         length (colls (seed_plans cfg (seed_plans cfg st)) ''plan'') = 2"
proof -
  from seed_plans_working [OF assms, of cfg] SAMPLE_PLANS_two [of cfg]
  have "map snd (colls (seed_plans cfg st) ''plan'') = SAMPLE_PLANS cfg"
    and "length (colls (seed_plans cfg st) ''plan'') = 2"
    by simp_all
  then show ?thesis
    by (simp add: seed_plans_idem)
qed

theorem seed_twice_two_plans_witness:
  "db_present empty_store \<and> \<not> insert_fails empty_store \<and> colls empty_store ''plan'' = [] \<and>
   map snd (colls (seed_plans sample_config empty_store) ''plan'') = SAMPLE_PLANS sample_config \<and>
   seed_plans sample_config (seed_plans sample_config empty_store) =
     seed_plans sample_config empty_store \<and>
   length (colls (seed_plans sample_config (seed_plans sample_config empty_store)) ''plan'') = 2"
proof -
  have h: "db_present empty_store" "\<not> insert_fails empty_store" "colls empty_store ''plan'' = []"
    by (simp_all add: empty_store_def)
  from seed_twice_two_plans [OF h, of sample_config] h show ?thesis
    by (intro conjI) simp_all
qed

section \<open>The plan catalogue: listing\<close>

lemma validated_error: "validated r = Inl e \<Longrightarrow> e = ValidationError"
  by (cases r) (simp_all add: validated_def)

lemma validate_str_error: "validate_str lax v = Inl e \<Longrightarrow> e = ValidationError"
  by (cases v) (auto dest: validated_error)

lemma validate_optional_str_error: "validate_optional_str lax v = Inl e \<Longrightarrow> e = ValidationError"
  by (cases v) (auto dest: validate_str_error validated_error split: sum.splits)

lemma validate_int_error: "validate_int lax v = Inl e \<Longrightarrow> e = ValidationError"
  by (cases v) (auto dest: validated_error)

lemma validate_each_str_error: "validate_each_str lax vs = Inl e \<Longrightarrow> e = ValidationError"
  by (induction vs arbitrary: e) (auto dest: validate_str_error split: sum.splits)

lemma validate_list_str_error: "validate_list_str lax v = Inl e \<Longrightarrow> e = ValidationError"
  by (cases v) (auto dest: validate_each_str_error split: option.splits)

lemma plan_out_error: "plan_out lax doc = Inl e \<Longrightarrow> e = ValidationError"
  by (auto simp: plan_out_def split: prod.splits sum.splits
      dest: validate_str_error validate_optional_str_error validate_int_error validate_list_str_error)

lemma plan_out_without_name:
  "map_of (snd doc) ''name'' = None \<Longrightarrow> plan_out lax doc = Inl ValidationError"
  by (cases doc) (simp add: plan_out_def dict_get_def)

lemma get_plans_loop_error: "get_plans_loop lax docs out = Inl e \<Longrightarrow> e = ValidationError"
  by (induction docs arbitrary: out) (auto dest: plan_out_error split: sum.splits)

lemma get_plans_loop_fails:
  "doc \<in> set docs \<Longrightarrow> plan_out lax doc = Inl e \<Longrightarrow> isl (get_plans_loop lax docs out)"
  by (induction docs arbitrary: out) (auto split: sum.splits)

lemma get_plans_loop_all:
  "list_all2 (\<lambda>doc p. plan_out lax doc = Inr p) docs ps \<Longrightarrow>
   get_plans_loop lax docs out = Inr (out @ ps)"
  by (induction docs ps arbitrary: out rule: list_all2_induct) simp_all

lemma plan_out_carried:
  assumes "carried_fields_accepted lax (snd doc)"
  shows "\<exists>p. plan_out lax doc = Inr p \<and> plan_entry lax doc p"
  using assms
  by (cases doc)
     (auto simp: carried_fields_accepted_def plan_entry_def plan_out_def dict_get_def
        dict_get_default_def split: option.splits sum.splits)

lemma plan_outs_carried:
  "list_all (\<lambda>doc. carried_fields_accepted lax (snd doc)) docs \<Longrightarrow>
   \<exists>ps. list_all2 (\<lambda>doc p. plan_out lax doc = Inr p \<and> plan_entry lax doc p) docs ps"
proof (induction docs)
  case Nil
  then show ?case by simp
next
  case (Cons doc docs)
  from Cons.prems have hd: "carried_fields_accepted lax (snd doc)"
    and tl: "list_all (\<lambda>doc. carried_fields_accepted lax (snd doc)) docs"
    by simp_all
  from Cons.IH [OF tl]
  obtain ps where ps: "list_all2 (\<lambda>doc p. plan_out lax doc = Inr p \<and> plan_entry lax doc p) docs ps"
    by (rule exE)
  from plan_out_carried [OF hd]
  obtain p where p: "plan_out lax doc = Inr p \<and> plan_entry lax doc p"
    by (rule exE)
  from p ps
  have "list_all2 (\<lambda>doc p. plan_out lax doc = Inr p \<and> plan_entry lax doc p) (doc # docs) (p # ps)"
    by simp
  then show ?case by (rule exI)
qed

text \<open>
  C7. When every plan document of a readable store carries a valid name and has no
  carried field that its validator refuses, \<^verbatim>\<open>GET /api/plans\<close> does not raise and
  returns one entry per document, in order, and each entry is that plan: it has the
  document's identifier, the validated name, and for every other field the validated
  carried value, or the default when the field is absent (price 0, interval "month").
  In particular an entry whose document has no \<^verbatim>\<open>description\<close> has description null,
  and an entry whose document has no \<^verbatim>\<open>features\<close> has the empty feature list.
\<close>

theorem get_plans_defaults_optional_fields:
  assumes "db_present st"
    and "list_all (\<lambda>doc. carried_fields_accepted lax (snd doc)) (colls st ''plan'')"
  shows "\<exists>out. get_plans lax st = Inr out \<and>
           length out = length (colls st ''plan'') \<and>
           list_all2
             (\<lambda>doc p.
                plan_id p = fst doc \<and>
                (\<exists>v. map_of (snd doc) ''name'' = Some v \<and> validate_str lax v = Inr (name p)) \<and>
                (case map_of (snd doc) ''description'' of
                   None \<Rightarrow> description p = None
                 | Some v \<Rightarrow> validate_optional_str lax v = Inr (description p)) \<and>
                (case map_of (snd doc) ''price_cents'' of
                   None \<Rightarrow> price_cents p = 0
                 | Some v \<Rightarrow> validate_int lax v = Inr (price_cents p)) \<and>
                (case map_of (snd doc) ''interval'' of
                   None \<Rightarrow> interval p = ''month''
                 | Some v \<Rightarrow> validate_str lax v = Inr (interval p)) \<and>
                (case map_of (snd doc) ''features'' of
                   None \<Rightarrow> features p = []
                 | Some v \<Rightarrow> validate_list_str lax v = Inr (features p)))
             (colls st ''plan'') out \<and>
           (\<forall>i<length out.
              (map_of (snd (colls st ''plan'' ! i)) ''description'' = None \<longrightarrow>
                 description (out ! i) = None) \<and>
              (map_of (snd (colls st ''plan'' ! i)) ''features'' = None \<longrightarrow>
                 features (out ! i) = []))"
proof -
  from plan_outs_carried [OF assms(2)]
  obtain ps where ps:
    "list_all2 (\<lambda>doc p. plan_out lax doc = Inr p \<and> plan_entry lax doc p) (colls st ''plan'') ps"
    by (rule exE)
  then have "list_all2 (\<lambda>doc p. plan_out lax doc = Inr p) (colls st ''plan'') ps"
    by (rule list_all2_mono) simp
  from get_plans_loop_all [OF this, of "[]"] assms(1)
  have res: "get_plans lax st = Inr ps"
    by (simp add: get_plans_def get_documents_def)
  from ps have len: "length (colls st ''plan'') = length ps"
    by (rule list_all2_lengthD)
  from ps have entries: "list_all2 (plan_entry lax) (colls st ''plan'') ps"
    by (rule list_all2_mono) simp
  show ?thesis
  proof (intro exI conjI)
    show "get_plans lax st = Inr ps"
      by (rule res)
    show "length ps = length (colls st ''plan'')"
      by (rule len [symmetric])
    show "list_all2
             (\<lambda>doc p.
                plan_id p = fst doc \<and>
                (\<exists>v. map_of (snd doc) ''name'' = Some v \<and> validate_str lax v = Inr (name p)) \<and>
                (case map_of (snd doc) ''description'' of
                   None \<Rightarrow> description p = None
                 | Some v \<Rightarrow> validate_optional_str lax v = Inr (description p)) \<and>
                (case map_of (snd doc) ''price_cents'' of
                   None \<Rightarrow> price_cents p = 0
                 | Some v \<Rightarrow> validate_int lax v = Inr (price_cents p)) \<and>
                (case map_of (snd doc) ''interval'' of
                   None \<Rightarrow> interval p = ''month''
                 | Some v \<Rightarrow> validate_str lax v = Inr (interval p)) \<and>
                (case map_of (snd doc) ''features'' of
                   None \<Rightarrow> features p = []
                 | Some v \<Rightarrow> validate_list_str lax v = Inr (features p)))
             (colls st ''plan'') ps"
      using entries by (rule list_all2_mono) (simp only: plan_entry_def)
    show "\<forall>i<length ps.
            (map_of (snd (colls st ''plan'' ! i)) ''description'' = None \<longrightarrow>
               description (ps ! i) = None) \<and>
            (map_of (snd (colls st ''plan'' ! i)) ''features'' = None \<longrightarrow>
               features (ps ! i) = [])"
    proof (intro allI impI)
      fix i assume "i < length ps"
      with len have "i < length (colls st ''plan'')"
        by simp
      with entries have "plan_entry lax (colls st ''plan'' ! i) (ps ! i)"
        by (rule list_all2_nthD)
      then show "(map_of (snd (colls st ''plan'' ! i)) ''description'' = None \<longrightarrow>
               description (ps ! i) = None) \<and>
            (map_of (snd (colls st ''plan'' ! i)) ''features'' = None \<longrightarrow>
               features (ps ! i) = [])"
        by (simp add: plan_entry_def split: option.splits)
    qed
  qed
qed

theorem get_plans_defaults_optional_fields_witness:
  "db_present (plan_store sample_plan_docs) \<and>
   list_all (\<lambda>doc. carried_fields_accepted strict_lax (snd doc))
     (colls (plan_store sample_plan_docs) ''plan'') \<and>
   map_of (snd (sample_plan_docs ! 0)) ''description'' = None \<and>
   map_of (snd (sample_plan_docs ! 0)) ''features'' = None \<and>
   get_plans strict_lax (plan_store sample_plan_docs) =
     Inr [ \<lparr>plan_id = 7, name = ''Basic'', description = None, price_cents = 500,
             interval = ''month'', features = []\<rparr>,
           \<lparr>plan_id = 8, name = ''Pro'', description = Some ''Everything'', price_cents = 2500,
             interval = ''year'', features = [''Reports'']\<rparr> ]"
proof -
  let ?st = "plan_store sample_plan_docs"
  have db: "db_present ?st"
    and docs: "colls ?st ''plan'' = sample_plan_docs"
    by (simp_all add: plan_store_def empty_store_def)
  have ok: "list_all (\<lambda>doc. carried_fields_accepted strict_lax (snd doc)) (colls ?st ''plan'')"
    unfolding docs by (simp add: sample_plan_docs_def carried_fields_accepted_def)
  have absent: "map_of (snd (sample_plan_docs ! 0)) ''description'' = None"
    "map_of (snd (sample_plan_docs ! 0)) ''features'' = None"
    by (simp_all add: sample_plan_docs_def)
  from get_plans_defaults_optional_fields [OF db ok]
  obtain out where res: "get_plans strict_lax ?st = Inr out"
    and entries: "list_all2
             (\<lambda>doc p.
                plan_id p = fst doc \<and>
                (\<exists>v. map_of (snd doc) ''name'' = Some v \<and> validate_str strict_lax v = Inr (name p)) \<and>
                (case map_of (snd doc) ''description'' of
                   None \<Rightarrow> description p = None
                 | Some v \<Rightarrow> validate_optional_str strict_lax v = Inr (description p)) \<and>
                (case map_of (snd doc) ''price_cents'' of
                   None \<Rightarrow> price_cents p = 0
                 | Some v \<Rightarrow> validate_int strict_lax v = Inr (price_cents p)) \<and>
                (case map_of (snd doc) ''interval'' of
                   None \<Rightarrow> interval p = ''month''
                 | Some v \<Rightarrow> validate_str strict_lax v = Inr (interval p)) \<and>
                (case map_of (snd doc) ''features'' of
                   None \<Rightarrow> features p = []
                 | Some v \<Rightarrow> validate_list_str strict_lax v = Inr (features p)))
             (colls ?st ''plan'') out"
    by (elim exE conjE)
  from entries [unfolded docs] obtain p q where out: "out = [p, q]"
    and p: "plan_id p = 7" "name p = ''Basic''" "description p = None" "price_cents p = 500"
      "interval p = ''month''" "features p = []"
    and q: "plan_id q = 8" "name q = ''Pro''" "description q = Some ''Everything''"
      "price_cents q = 2500" "interval q = ''year''" "features q = [''Reports'']"
    by (auto simp: sample_plan_docs_def list_all2_Cons1)
  from p have "p = \<lparr>plan_id = 7, name = ''Basic'', description = None, price_cents = 500,
             interval = ''month'', features = []\<rparr>"
    by (cases p) simp
  moreover from q have "q = \<lparr>plan_id = 8, name = ''Pro'', description = Some ''Everything'',
             price_cents = 2500, interval = ''year'', features = [''Reports'']\<rparr>"
    by (cases q) simp
  ultimately have "get_plans strict_lax ?st =
     Inr [ \<lparr>plan_id = 7, name = ''Basic'', description = None, price_cents = 500,
             interval = ''month'', features = []\<rparr>,
           \<lparr>plan_id = 8, name = ''Pro'', description = Some ''Everything'', price_cents = 2500,
             interval = ''year'', features = [''Reports'']\<rparr> ]"
    using res out by simp
  with db ok absent show ?thesis
    by (intro conjI)
qed

text \<open>
  C10. A plan document without a \<^verbatim>\<open>name\<close> makes \<^verbatim>\<open>GET /api/plans\<close> fail with the
  validation error, whatever else the collection holds; a document that carries only a
  name is returned with description null, price 0, interval "month" and no features,
  which are all the defaults there are.
\<close>

theorem get_plans_requires_name:
  assumes "db_present st" and "doc \<in> set (colls st ''plan'')"
    and "map_of (snd doc) ''name'' = None"
  shows "get_plans lax st = Inl ValidationError \<and>
         plan_out lax (oid, [(''name'', JStr n)]) =
           Inr \<lparr>plan_id = oid, name = n, description = None, price_cents = 0,
                interval = ''month'', features = []\<rparr>"
proof -
  from plan_out_without_name [OF assms(3)] assms(2)
  have "isl (get_plans_loop lax (colls st ''plan'') [])"
    by (rule get_plans_loop_fails [rotated])
  then obtain e where "get_plans_loop lax (colls st ''plan'') [] = Inl e"
    by (cases "get_plans_loop lax (colls st ''plan'') []") simp_all
  with get_plans_loop_error [OF this] assms(1) have "get_plans lax st = Inl ValidationError"
    by (simp add: get_plans_def get_documents_def)
  moreover have "plan_out lax (oid, [(''name'', JStr n)]) =
           Inr \<lparr>plan_id = oid, name = n, description = None, price_cents = 0,
                interval = ''month'', features = []\<rparr>"
    by (simp add: plan_out_def dict_get_def dict_get_default_def)
  ultimately show ?thesis
    by simp
qed

theorem get_plans_requires_name_witness:
  "db_present (plan_store [(1, [(''name'', JStr ''Basic'')]), (2, [(''price_cents'', JInt 900)])]) \<and>
   (2, [(''price_cents'', JInt 900)]) \<in>
     set (colls (plan_store [(1, [(''name'', JStr ''Basic'')]), (2, [(''price_cents'', JInt 900)])]) ''plan'') \<and>
   map_of (snd (2 :: nat, [(''price_cents'', JInt 900)])) ''name'' = None \<and>
   get_plans strict_lax
     (plan_store [(1, [(''name'', JStr ''Basic'')]), (2, [(''price_cents'', JInt 900)])]) =
     Inl ValidationError \<and>
   plan_out strict_lax (1, [(''name'', JStr ''Basic'')]) =
     Inr \<lparr>plan_id = 1, name = ''Basic'', description = None, price_cents = 0,
          interval = ''month'', features = []\<rparr>"
proof -
  let ?st = "plan_store [(1, [(''name'', JStr ''Basic'')]), (2, [(''price_cents'', JInt 900)])]"
  have db: "db_present ?st"
    and mem: "(2, [(''price_cents'', JInt 900)]) \<in> set (colls ?st ''plan'')"
    by (simp_all add: plan_store_def empty_store_def)
  have absent: "map_of (snd (2 :: nat, [(''price_cents'', JInt 900)])) ''name'' = None"
    by simp
  from get_plans_requires_name [OF db mem absent, of strict_lax 1 "''Basic''"] db mem absent
  show ?thesis
    by (intro conjI) simp_all
qed

text \<open>What the response model makes of the two built-in plans.\<close>

lemma plan_out_starter:
  "plan_out lax (oid, SAMPLE_PLANS cfg ! 0) =
     Inr \<lparr>plan_id = oid, name = ''Starter'',
          description = Some ''For small businesses getting started'',
          price_cents = 1900, interval = ''month'',
          features = [''Connect 1 Google Business Profile'', ''Basic analytics'', ''Email support'']\<rparr>"
  by (simp add: plan_out_def SAMPLE_PLANS_def dict_get_def dict_get_default_def)

lemma plan_out_growth:
  "plan_out lax (oid, SAMPLE_PLANS cfg ! 1) =
     Inr \<lparr>plan_id = oid, name = ''Growth'',
          description = Some ''For growing teams managing multiple locations'',
          price_cents = 4900, interval = ''month'',
          features = [''Connect up to 5 locations'', ''Posts & hours management'', ''Priority support'']\<rparr>"
  by (simp add: plan_out_def SAMPLE_PLANS_def dict_get_def dict_get_default_def)

text \<open>
  C6. On a store that takes writes and holds no plan, after the startup seed
  \<^verbatim>\<open>GET /api/plans\<close> returns exactly two entries: "Starter", 1900 cents per month, and
  "Growth", 4900 cents per month, each with its description and its three features in
  the order of the source, under the identifiers the store gave the two documents.
\<close>

theorem seeded_plans_listed:
  assumes "db_present st" and "\<not> insert_fails st" and "colls st ''plan'' = []"
  shows "get_plans lax (seed_plans cfg st) =
           Inr [ \<lparr>plan_id = next_oid st, name = ''Starter'',
                   description = Some ''For small businesses getting started'',
                   price_cents = 1900, interval = ''month'',
                   features = [''Connect 1 Google Business Profile'', ''Basic analytics'',
                               ''Email support'']\<rparr>,
                 \<lparr>plan_id = Suc (next_oid st), name = ''Growth'',
                   description = Some ''For growing teams managing multiple locations'',
                   price_cents = 4900, interval = ''month'',
                   features = [''Connect up to 5 locations'', ''Posts & hours management'',
                               ''Priority support'']\<rparr> ]"
  using assms
  by (simp add: seed_plans_working get_plans_def get_documents_def plan_out_starter
      plan_out_growth [unfolded One_nat_def])

theorem seeded_plans_listed_witness:
  "db_present empty_store \<and> \<not> insert_fails empty_store \<and> colls empty_store ''plan'' = [] \<and>
   get_plans strict_lax (seed_plans sample_config empty_store) =
           Inr [ \<lparr>plan_id = 0, name = ''Starter'',
                   description = Some ''For small businesses getting started'',
                   price_cents = 1900, interval = ''month'',
                   features = [''Connect 1 Google Business Profile'', ''Basic analytics'',
                               ''Email support'']\<rparr>,
                 \<lparr>plan_id = 1, name = ''Growth'',
                   description = Some ''For growing teams managing multiple locations'',
                   price_cents = 4900, interval = ''month'',
                   features = [''Connect up to 5 locations'', ''Posts & hours management'',
                               ''Priority support'']\<rparr> ]"
proof -
  have h: "db_present empty_store" "\<not> insert_fails empty_store" "colls empty_store ''plan'' = []"
    and n: "next_oid empty_store = 0"
    by (simp_all add: empty_store_def)
  from seeded_plans_listed [OF h, of strict_lax sample_config] h n show ?thesis
    by (intro conjI) simp_all
qed

end
